theory Spec2Isabelle
  imports
    Complex_Main
    "HOL-Library.Sublist"
    "HOL-Library.Char_ord"
    "HOL-Library.List_Lexorder"
    "HOL-Library.Log_Nat"
begin

section \<open>The data frame\<close>

text \<open>
  The dashboard script \<open>app.py\<close> reads one table of customers and, on its EDA page,
  derives an age group per customer, filters the table by four sidebar selections and
  aggregates the filtered table per category dimension. The table is a list of rows;
  a column is \<open>map field df\<close>. Only the columns the pipeline reads are kept.
  A value of a categorical column is a \<open>string option\<close>: \<open>None\<close> is pandas' NaN.
  Strings are ordered as Python orders them, character by character.
\<close>

record customer =
  customer_age :: int
  attrition_flag :: string
  gender :: string
  education_level :: string
  income_category :: string

record row = customer +
  age_group :: "string option"

section \<open>Age grouping: \<open>pd.cut(df['customer_age'], bins, labels, right=False)\<close>\<close>

definition bins :: "int list" where
  "bins = [20, 40, 50, 60, 79]"

definition labels :: "string list" where
  "labels = [''20-39'', ''40-49'', ''50-59'', ''60-79'']"

text \<open>
  \<open>numpy.searchsorted(bins, x, side='right')\<close> on an ascending array: the number of
  leading edges that are \<open>\<le> x\<close>.
\<close>

definition searchsorted_right :: "int list \<Rightarrow> int \<Rightarrow> nat" where
  "searchsorted_right a v = length (takeWhile (\<lambda>b. b \<le> v) a)"

text \<open>
  \<open>pd.cut\<close> with \<open>right=False\<close>: the intervals are closed on the left and open on the
  right, the last one included (\<open>include_lowest\<close> only acts when \<open>right=True\<close>). A value
  with index \<open>0\<close> (below the first edge) or \<open>len(bins)\<close> (at or above the last edge) is NaN.
\<close>

definition cut :: "int list \<Rightarrow> string list \<Rightarrow> int \<Rightarrow> string option" where
  "cut bs ls x =
     (let ids = searchsorted_right bs x
      in if ids = length bs \<or> ids = 0 then None else Some (ls ! (ids - 1)))"

definition assign_age_group :: "int \<Rightarrow> string option" where
  "assign_age_group a = cut bins labels a"

text \<open>\<open>df['age_group'] = pd.cut(...)\<close>: the column is attached to every row.\<close>

definition add_age_group :: "customer list \<Rightarrow> row list" where
  "add_age_group cs =
     map (\<lambda>c. \<lparr>customer_age = customer_age c, attrition_flag = attrition_flag c,
                gender = gender c, education_level = education_level c,
                income_category = income_category c,
                age_group = assign_age_group (customer_age c)\<rparr>) cs"

section \<open>Sidebar selections and the filtered table\<close>

record filter_set =
  selected_age :: "string list"
  selected_edu :: "string list"
  selected_gender :: "string list"
  selected_income :: "string list"

text \<open>\<open>Series.unique()\<close>: the distinct values in order of first appearance.\<close>

definition unique :: "'a list \<Rightarrow> 'a list" where
  "unique xs = rev (remdups (rev xs))"

definition dropna :: "'a option list \<Rightarrow> 'a list" where
  "dropna xs = List.map_filter (\<lambda>v. v) xs"

text \<open>
  The defaults of the four multiselect widgets: every value of the column, and for the
  age group every value but NaN (\<open>df['age_group'].dropna().unique()\<close>).
\<close>

definition default_filters :: "row list \<Rightarrow> filter_set" where
  "default_filters df =
     \<lparr>selected_age = unique (dropna (map age_group df)),
      selected_edu = unique (map education_level df),
      selected_gender = unique (map gender df),
      selected_income = unique (map income_category df)\<rparr>"

text \<open>\<open>Series.isin(values)\<close>, one boolean per row.\<close>

definition isin :: "string list \<Rightarrow> string list \<Rightarrow> bool list" where
  "isin col vals = map (\<lambda>v. v \<in> set vals) col"

text \<open>
  On the categorical age group the selection holds labels only (the widget's options
  are taken after \<open>dropna()\<close>), so a NaN entry is never in it.
\<close>

definition isin_cat :: "string option list \<Rightarrow> string list \<Rightarrow> bool list" where
  "isin_cat col vals =
     map (\<lambda>v. case v of None \<Rightarrow> False | Some l \<Rightarrow> l \<in> set vals) col"

text \<open>The elementwise \<open>&\<close> of two masks and the boolean indexing \<open>df[mask]\<close>.\<close>

definition mask_and :: "bool list \<Rightarrow> bool list \<Rightarrow> bool list" where
  "mask_and m1 m2 = map (\<lambda>(a, b). a \<and> b) (zip m1 m2)"

definition select_rows :: "'a list \<Rightarrow> bool list \<Rightarrow> 'a list" where
  "select_rows df m = map fst (filter snd (zip df m))"

definition filtered_df :: "filter_set \<Rightarrow> row list \<Rightarrow> row list" where
  "filtered_df F df =
     select_rows df
       (mask_and
         (mask_and
           (mask_and (isin (map gender df) (selected_gender F))
                     (isin (map income_category df) (selected_income F)))
           (isin_cat (map age_group df) (selected_age F)))
         (isin (map education_level df) (selected_edu F)))"

section \<open>Category dimensions and count tables\<close>

datatype category = Age_group | Education_level | Gender | Income_category

text \<open>\<open>filtered_df[category]\<close>: the value of the named column in a row.\<close>

fun column :: "category \<Rightarrow> row \<Rightarrow> string option" where
  "column Age_group r = age_group r"
| "column Education_level r = Some (education_level r)"
| "column Gender r = Some (gender r)"
| "column Income_category r = Some (income_category r)"

text \<open>
  Modelled from the spec: \<open>count_by\<close> (section 4.3). The script hands the filtered rows
  to \<open>px.histogram(filtered_df, y=category, color='attrition_flag')\<close> and the charting
  library counts them when it draws; no count table is computed in \<open>app.py\<close>. Following
  the spec, the rows with a defined category value are grouped by that value and by
  outcome and the members of each group are counted: one entry
  \<open>((value, outcome), count)\<close> per group that occurs, in order of first appearance.
\<close>

definition group_key :: "category \<Rightarrow> row \<Rightarrow> (string \<times> string) option" where
  "group_key c r = map_option (\<lambda>v. (v, attrition_flag r)) (column c r)"

definition count_by :: "category \<Rightarrow> row list \<Rightarrow> ((string \<times> string) \<times> nat) list" where
  "count_by c df =
     (let keys = dropna (map (group_key c) df)
      in map (\<lambda>k. (k, count_list keys k)) (unique keys))"

section \<open>Floating point\<close>

text \<open>
  The rates are computed in float64. A float is the rational number it denotes;
  \<open>fl x\<close> is the float nearest to the rational \<open>x\<close>: with \<open>2 ^ e \<le> \<bar>x\<bar> < 2 ^ (e + 1)\<close>
  the floats near \<open>x\<close> are the multiples of \<open>2 ^ (e - 52)\<close> (a significand of 53 bits),
  and half way between two of them the one with the even significand is taken. The
  range of the exponent is not modelled: no value of this pipeline leaves it (the
  counts are 64-bit integers, the percentages at most 1000). An arithmetic operation
  on floats is the exact operation followed by \<open>fl\<close>.
\<close>

text \<open>
  \<open>rint\<close>: the nearest integer and, half way between two integers, the even one.
\<close>

definition rint :: "rat \<Rightarrow> int" where
  "rint x =
     (let f = \<lfloor>x\<rfloor>; d = x - of_int f
      in if d < 1 / 2 then f else if 1 / 2 < d then f + 1
         else if even f then f else f + 1)"

text \<open>The exponent \<open>e\<close> of a rational that is not zero, from the bit lengths of its fraction.\<close>

definition float_exp :: "rat \<Rightarrow> int" where
  "float_exp x =
     (let (a, b) = quotient_of \<bar>x\<bar>; d = bitlen a - bitlen b
      in if 2 powi d \<le> \<bar>x\<bar> then d else d - 1)"

definition fl :: "rat \<Rightarrow> rat" where
  "fl x =
     (if x = 0 then 0
      else of_int (rint (x / 2 powi (float_exp x - 52))) * 2 powi (float_exp x - 52))"

section \<open>Rate tables: \<open>churn_rate_df(filtered_df, category)\<close>\<close>

text \<open>
  \<open>pd.crosstab(filtered_df[category], filtered_df['attrition_flag'], normalize='index')\<close>
  groups the rows whose category value is not NaN. With the default \<open>dropna=True\<close> its
  index holds the category values that occur, its columns the outcomes that occur,
  both sorted; a cell counts the rows with that value and outcome (zero where none).
  The labels of the age group sort as strings in the order of their categories.
\<close>

definition index_values :: "category \<Rightarrow> row list \<Rightarrow> string list" where
  "index_values c df = sort (remdups (dropna (map (column c) df)))"

definition column_values :: "category \<Rightarrow> row list \<Rightarrow> string list" where
  "column_values c df =
     sort (remdups (map attrition_flag (filter (\<lambda>r. column c r \<noteq> None) df)))"

definition cell_count :: "category \<Rightarrow> row list \<Rightarrow> string \<Rightarrow> string \<Rightarrow> nat" where
  "cell_count c df v oc =
     length (filter (\<lambda>r. column c r = Some v \<and> attrition_flag r = oc) df)"

text \<open>\<open>x.sum(axis=1)\<close>: the sum of a row of the table over its columns.\<close>

definition row_total :: "category \<Rightarrow> row list \<Rightarrow> string \<Rightarrow> nat" where
  "row_total c df v = sum_list (map (cell_count c df v) (column_values c df))"

text \<open>
  One cell of the cross table under \<open>normalize='index'\<close> and \<open>* 100\<close>: the two integer
  counts are converted to floats and divided, and the quotient is multiplied by 100.
\<close>

definition cell_pct :: "nat \<Rightarrow> nat \<Rightarrow> rat" where
  "cell_pct n t = fl (fl (fl (of_nat n) / fl (of_nat t)) * 100)"

text \<open>
  \<open>normalize='index'\<close> divides every cell by the sum of its row, where a zero sum gives
  NaN and raises nothing, and replaces NaN by \<open>0\<close> (\<open>fillna(0)\<close>); the script multiplies
  by 100.
\<close>

definition crosstab_pct :: "category \<Rightarrow> row list \<Rightarrow> string \<Rightarrow> string \<Rightarrow> rat" where
  "crosstab_pct c df v oc =
     (if row_total c df v = 0 then 0
      else cell_pct (cell_count c df v oc) (row_total c df v))"

text \<open>
  \<open>Series.round(1)\<close> is numpy's rounding, three float operations: the product with 10,
  \<open>rint\<close> of it, and the quotient by 10.
\<close>

definition round1 :: "rat \<Rightarrow> rat" where
  "round1 x = fl (of_int (rint (fl (x * 10))) / 10)"

text \<open>
  \<open>astype(str)\<close> gives the shortest decimal that reads back as the float. For the float
  nearest to \<open>k / 10\<close>, which is never negative here, that is \<open>k / 10\<close> itself, written
  with its integer part, a point and one decimal (\<open>100.0\<close>, \<open>16.9\<close>, \<open>0.0\<close>).
\<close>

fun digits :: "nat \<Rightarrow> string" where
  "digits n =
     (if n < 10 then [''0123456789'' ! n]
      else digits (n div 10) @ [''0123456789'' ! (n mod 10)])"

declare digits.simps [simp del]

definition str_float1 :: "rat \<Rightarrow> string" where
  "str_float1 p = (let k = nat (rint (p * 10)) in digits (k div 10) @ ''.'' @ digits (k mod 10))"

text \<open>
  \<open>reset_index().melt(id_vars=category, var_name='attrition_flag',
  value_name='percentage')\<close> turns the table into one row per cell, column after column;
  then the percentage is rounded and the label is appended.
\<close>

record rate_row =
  category_value :: string
  outcome :: string
  percentage :: rat
  percentage_label :: string

definition churn_rate_df :: "row list \<Rightarrow> category \<Rightarrow> rate_row list" where
  "churn_rate_df df c =
     concat (map (\<lambda>oc.
        map (\<lambda>v. let p = round1 (crosstab_pct c df v oc)
                 in \<lparr>category_value = v, outcome = oc, percentage = p,
                     percentage_label = str_float1 p @ ''%''\<rparr>)
            (index_values c df))
      (column_values c df))"

section \<open>Example tables\<close>

text \<open>
  The spec's scenario: two customers of age 25, one staying and one leaving, and a
  customer of age 45 who stays.
\<close>

definition scenario_customers :: "customer list" where
  "scenario_customers =
     [\<lparr>customer_age = 25, attrition_flag = ''Existing Customer'', gender = ''M'',
       education_level = ''Graduate'', income_category = ''Unknown''\<rparr>,
      \<lparr>customer_age = 25, attrition_flag = ''Attrited Customer'', gender = ''F'',
       education_level = ''Graduate'', income_category = ''Unknown''\<rparr>,
      \<lparr>customer_age = 45, attrition_flag = ''Existing Customer'', gender = ''M'',
       education_level = ''Graduate'', income_category = ''Unknown''\<rparr>]"

definition scenario :: "row list" where
  "scenario = add_age_group scenario_customers"

definition only_40_49 :: filter_set where
  "only_40_49 = \<lparr>selected_age = [''40-49''], selected_edu = [''Graduate''],
                  selected_gender = [''M'', ''F''], selected_income = [''Unknown'']\<rparr>"

definition no_gender :: filter_set where
  "no_gender = \<lparr>selected_age = [''20-39'', ''40-49''], selected_edu = [''Graduate''],
                 selected_gender = [], selected_income = [''Unknown'']\<rparr>"

text \<open>A customer of age 15, below every bucket, next to one of age 30.\<close>

definition young_customers :: "customer list" where
  "young_customers =
     [\<lparr>customer_age = 15, attrition_flag = ''Attrited Customer'', gender = ''F'',
       education_level = ''Graduate'', income_category = ''Unknown''\<rparr>,
      \<lparr>customer_age = 30, attrition_flag = ''Existing Customer'', gender = ''M'',
       education_level = ''Graduate'', income_category = ''Unknown''\<rparr>]"

definition young_table :: "row list" where
  "young_table = add_age_group young_customers"



definition half_row :: rate_row where
  "half_row = \<lparr>category_value = ''20-39'', outcome = ''Attrited Customer'', percentage = 50,
                percentage_label = ''50.0%''\<rparr>"

definition zero_row :: rate_row where
  "zero_row = \<lparr>category_value = ''40-49'', outcome = ''Attrited Customer'', percentage = 0,
                percentage_label = ''0.0%''\<rparr>"





text \<open>Two thousand customers of one gender, three of them leaving.\<close>

definition two_thousand_customers :: "customer list" where
  "two_thousand_customers =
     replicate 1997 \<lparr>customer_age = 45, attrition_flag = ''Existing Customer'', gender = ''M'',
       education_level = ''Graduate'', income_category = ''Unknown''\<rparr> @
     replicate 3 \<lparr>customer_age = 45, attrition_flag = ''Attrited Customer'', gender = ''M'',
       education_level = ''Graduate'', income_category = ''Unknown''\<rparr>"

definition two_thousand_table :: "row list" where
  "two_thousand_table = add_age_group two_thousand_customers"

section \<open>Properties of the age grouping\<close>

lemma labels_fit_bins: "length labels = length bins - 1"
  by (simp add: labels_def bins_def)

lemma labels_in_category_order: "sorted labels \<and> distinct labels"
  by (simp add: labels_def)

lemma assign_age_group_cases:
  "assign_age_group a =
     (if a < 20 \<or> 79 \<le> a then None
      else if a < 40 then Some ''20-39''
      else if a < 50 then Some ''40-49''
      else if a < 60 then Some ''50-59''
      else Some ''60-79'')"
  by (simp add: assign_age_group_def cut_def searchsorted_right_def bins_def labels_def)

text \<open>
  C1. The claim puts age 79 into the last bucket, as the label \<open>60-79\<close> says. The
  cut is open on the right at its last edge 79, so age 79 gets no age group.
\<close>

theorem assign_age_group_79: "assign_age_group 79 = None"
  by (simp add: assign_age_group_cases)

section \<open>Properties of the filter\<close>

lemma select_rows_map: "select_rows df (map P df) = filter P df"
  by (induction df) (simp_all add: select_rows_def)

lemma mask_and_map: "mask_and (map P xs) (map Q xs) = map (\<lambda>x. P x \<and> Q x) xs"
  by (induction xs) (simp_all add: mask_and_def)

lemma isin_map: "isin (map f df) vals = map (\<lambda>r. f r \<in> set vals) df"
  by (simp add: isin_def)

lemma isin_cat_map: "isin_cat (map f df) vals = map (\<lambda>r. f r \<in> Some ` set vals) df"
  by (auto simp add: isin_cat_def split: option.splits)

lemma filtered_df_filter:
  "filtered_df F df =
     filter (\<lambda>r. age_group r \<in> Some ` set (selected_age F) \<and>
                 education_level r \<in> set (selected_edu F) \<and>
                 gender r \<in> set (selected_gender F) \<and>
                 income_category r \<in> set (selected_income F)) df"
  unfolding filtered_df_def isin_map isin_cat_map mask_and_map select_rows_map
  by (rule filter_cong) auto

lemma filtered_df_idem: "filtered_df F (filtered_df F df) = filtered_df F df"
  by (simp add: filtered_df_filter)

lemma filtered_age: "r \<in> set (filtered_df F df) \<Longrightarrow> age_group r \<in> Some ` set (selected_age F)"
  by (simp add: filtered_df_filter)

lemma filtered_df_defined_ages:
  "filtered_df F (add_age_group cs) =
     filtered_df F (add_age_group (filter (\<lambda>c. assign_age_group (customer_age c) \<noteq> None) cs))"
  unfolding filtered_df_filter add_age_group_def
  by (induction cs) auto

text \<open>
  C7. The filtered table is a subsequence of the table (the rows in their order, none
  added), and it keeps exactly the rows, each as often as it occurs, whose age group,
  education level, gender and income category are each in the selection of that
  dimension.
\<close>

theorem filtered_df_subseq_members:
  "subseq (filtered_df F df) df \<and>
   filtered_df F df =
     filter (\<lambda>r. age_group r \<in> Some ` set (selected_age F) \<and>
                 education_level r \<in> set (selected_edu F) \<and>
                 gender r \<in> set (selected_gender F) \<and>
                 income_category r \<in> set (selected_income F)) df"
  using filtered_df_filter[of F df] by simp

text \<open>
  C8. The empty table filters to the empty table, and no row passes when the selection
  of any one dimension is empty.
\<close>

theorem filtered_df_empty:
  "filtered_df F [] = [] \<and>
   (selected_age F = [] \<or> selected_edu F = [] \<or> selected_gender F = [] \<or>
    selected_income F = [] \<longrightarrow> filtered_df F df = [])"
  by (auto simp add: filtered_df_filter)

section \<open>Properties of the tables\<close>

lemma set_unique: "set (unique xs) = set xs"
  by (simp add: unique_def)

lemma distinct_unique: "distinct (unique xs)"
  by (simp add: unique_def)

lemma set_dropna: "set (dropna xs) = {v. Some v \<in> set xs}"
  by (induction xs) (auto simp add: dropna_def List.map_filter_def)

lemma count_by_entry:
  assumes "e \<in> set (count_by c df)"
  shows "0 < snd e \<and> (\<exists>r\<in>set df. column c r = Some (fst (fst e)))"
proof -
  define keys where "keys = dropna (map (group_key c) df)"
  from assms have k: "fst e \<in> set keys" and n: "snd e = count_list keys (fst e)"
    by (auto simp add: count_by_def Let_def set_unique keys_def)
  from k have "count_list keys (fst e) \<noteq> 0"
    by (simp add: count_list_0_iff)
  moreover from k obtain r where r: "r \<in> set df" and g: "group_key c r = Some (fst e)"
    by (auto simp add: keys_def set_dropna)
  from g obtain v where "column c r = Some v" and "fst e = (v, attrition_flag r)"
    by (auto simp add: group_key_def)
  then have "column c r = Some (fst (fst e))" by simp
  with r have "\<exists>r\<in>set df. column c r = Some (fst (fst e))" by blast
  ultimately show ?thesis using n by simp
qed

lemma set_index_values: "set (index_values c df) = {v. \<exists>r\<in>set df. column c r = Some v}"
  by (auto simp add: index_values_def set_dropna image_iff) metis

lemma distinct_index_values: "distinct (index_values c df)"
  by (simp add: index_values_def)

lemma set_column_values:
  "set (column_values c df) = {oc. \<exists>r\<in>set df. column c r \<noteq> None \<and> attrition_flag r = oc}"
  by (auto simp add: column_values_def)

lemma distinct_column_values: "distinct (column_values c df)"
  by (simp add: column_values_def)

lemma sum_list_indicator:
  "distinct os \<Longrightarrow>
   sum_list (map (\<lambda>oc. if a = oc then (1::nat) else 0) os) = (if a \<in> set os then 1 else 0)"
  by (induction os) auto

lemma sum_list_partition:
  "distinct os \<Longrightarrow> f ` set xs \<subseteq> set os \<Longrightarrow>
   sum_list (map (\<lambda>oc. length (filter (\<lambda>x. f x = oc) xs)) os) = length xs"
proof (induction xs)
  case Nil
  then show ?case by simp
next
  case (Cons x xs)
  have "sum_list (map (\<lambda>oc. length (filter (\<lambda>y. f y = oc) (x # xs))) os) =
        sum_list (map (\<lambda>oc. (if f x = oc then 1 else 0) + length (filter (\<lambda>y. f y = oc) xs)) os)"
    by (rule arg_cong[where f = sum_list], rule map_cong) auto
  also have "\<dots> = sum_list (map (\<lambda>oc. if f x = oc then (1::nat) else 0) os) +
                   sum_list (map (\<lambda>oc. length (filter (\<lambda>y. f y = oc) xs)) os)"
    by (simp add: sum_list_addf)
  also have "\<dots> = 1 + length xs"
    using Cons by (simp add: sum_list_indicator)
  finally show ?case by simp
qed

text \<open>The sum of a row of the cross table is the number of rows with that category value.\<close>

lemma row_total_eq: "row_total c df v = length (filter (\<lambda>r. column c r = Some v) df)"
proof -
  let ?xs = "filter (\<lambda>r. column c r = Some v) df"
  have cell: "cell_count c df v = (\<lambda>oc. length (filter (\<lambda>r. attrition_flag r = oc) ?xs))"
    by (rule ext) (simp add: cell_count_def conj_commute)
  have "attrition_flag ` set ?xs \<subseteq> set (column_values c df)"
    by (auto simp add: set_column_values)
  then show ?thesis
    unfolding row_total_def cell
    by (intro sum_list_partition distinct_column_values)
qed

lemma row_total_pos_iff: "0 < row_total c df v \<longleftrightarrow> v \<in> set (index_values c df)"
  by (auto simp add: row_total_eq set_index_values filter_empty_conv simp del: length_0_conv)

lemma cell_count_le: "cell_count c df v oc \<le> row_total c df v"
proof -
  have "filter (\<lambda>r. column c r = Some v \<and> attrition_flag r = oc) df =
        filter (\<lambda>r. attrition_flag r = oc) (filter (\<lambda>r. column c r = Some v) df)"
    by (simp add: conj_commute)
  then show ?thesis
    unfolding cell_count_def row_total_eq by (simp only: length_filter_le)
qed

lemma crosstab_pct_eq:
  "crosstab_pct c df v oc =
     (if length (filter (\<lambda>r. column c r = Some v) df) = 0 then 0
      else cell_pct (length (filter (\<lambda>r. column c r = Some v \<and> attrition_flag r = oc) df))
                    (length (filter (\<lambda>r. column c r = Some v) df)))"
  by (simp add: crosstab_pct_def row_total_eq cell_count_def)

lemma crosstab_pct_cell:
  "row_total c df v = t \<Longrightarrow> cell_count c df v oc = n \<Longrightarrow> 0 < t \<Longrightarrow>
   crosstab_pct c df v oc = cell_pct n t"
  by (simp add: crosstab_pct_def)

lemma set_churn_rate_df:
  "set (churn_rate_df df c) =
     (\<lambda>(v, oc). \<lparr>category_value = v, outcome = oc,
                  percentage = round1 (crosstab_pct c df v oc),
                  percentage_label = str_float1 (round1 (crosstab_pct c df v oc)) @ ''%''\<rparr>)
       ` (set (index_values c df) \<times> set (column_values c df))"
  by (auto simp add: churn_rate_df_def Let_def image_iff)

lemma churn_rate_df_keys:
  "map (\<lambda>q. (outcome q, category_value q)) (churn_rate_df df c) =
     List.product (column_values c df) (index_values c df)"
  by (simp add: churn_rate_df_def List.product_concat_map map_concat comp_def Let_def)

lemma rate_value:
  "q \<in> set (churn_rate_df df c) \<Longrightarrow> \<exists>r\<in>set df. column c r = Some (category_value q)"
  by (auto simp add: set_churn_rate_df set_index_values)

lemma filter_eq_singleton:
  "distinct xs \<Longrightarrow> x \<in> set xs \<Longrightarrow> filter (\<lambda>y. y = x) xs = [x]"
  by (induction xs) (auto simp add: filter_empty_conv)

text \<open>The rows of one category value: one per column of the cross table.\<close>

lemma rates_of_value:
  assumes "v \<in> set (index_values c df)"
  shows "map percentage (filter (\<lambda>q. category_value q = v) (churn_rate_df df c)) =
         map (\<lambda>oc. round1 (crosstab_pct c df v oc)) (column_values c df)"
proof -
  have one: "map percentage (filter (\<lambda>q. category_value q = v)
        (map (\<lambda>v. let p = round1 (crosstab_pct c df v oc)
                 in \<lparr>category_value = v, outcome = oc, percentage = p,
                     percentage_label = str_float1 p @ ''%''\<rparr>) (index_values c df))) =
      [round1 (crosstab_pct c df v oc)]" for oc
    using assms distinct_index_values[of c df]
    by (simp add: filter_map comp_def Let_def filter_eq_singleton)
  show ?thesis
    unfolding churn_rate_df_def filter_concat map_concat map_map comp_def one
    by (induction "column_values c df") simp_all
qed

section \<open>Properties of the float operations\<close>


lemma rint_unfold:
  "rint y =
     (if y - of_int \<lfloor>y\<rfloor> < 1 / 2 then \<lfloor>y\<rfloor>
      else if 1 / 2 < y - of_int \<lfloor>y\<rfloor> then \<lfloor>y\<rfloor> + 1
      else if even \<lfloor>y\<rfloor> then \<lfloor>y\<rfloor> else \<lfloor>y\<rfloor> + 1)"
  unfolding rint_def Let_def by (rule refl)

lemma rint_nearest: "\<bar>of_int (rint y) - y\<bar> \<le> 1 / 2"
proof -
  define f where "f = \<lfloor>y\<rfloor>"
  define d where "d = y - of_int f"
  have d0: "0 \<le> d" unfolding d_def f_def by linarith
  have d1: "d < 1" unfolding d_def f_def by linarith
  have y: "y = of_int f + d" by (simp add: d_def)
  have r: "rint y = (if d < 1 / 2 then f else if 1 / 2 < d then f + 1
       else if even f then f else f + 1)"
    unfolding rint_unfold f_def d_def by (rule refl)
  show ?thesis unfolding r using d0 d1 by (auto simp add: y)
qed

lemma bitlen_powi_bounds:
  fixes a :: int
  assumes "0 < a"
  shows "2 powi (bitlen a - 1) \<le> (of_int a :: rat)" and "(of_int a :: rat) < 2 powi (bitlen a)"
proof -
  from bitlen_bounds[OF assms]
  have lo: "2 ^ nat (bitlen a - 1) \<le> a" and hi: "a < 2 ^ nat (bitlen a)" by simp_all
  have pos: "1 \<le> bitlen a" using assms bitlen_eq_zero_iff[of a] bitlen_nonneg[of a] by linarith
  have "(of_int (2 ^ nat (bitlen a - 1)) :: rat) \<le> of_int a" using lo by (simp only: of_int_le_iff)
  then show "2 powi (bitlen a - 1) \<le> (of_int a :: rat)"
    using pos by (simp add: power_int_def)
  have "(of_int a :: rat) < of_int (2 ^ nat (bitlen a))" using hi by (simp only: of_int_less_iff)
  then show "(of_int a :: rat) < 2 powi (bitlen a)"
    using pos by (simp add: power_int_def)
qed

lemma float_exp_bounds:
  assumes "x \<noteq> 0"
  shows "2 powi (float_exp x) \<le> \<bar>x\<bar>" and "\<bar>x\<bar> < 2 powi (float_exp x + 1)"
proof -
  obtain a b where q: "quotient_of \<bar>x\<bar> = (a, b)" by (cases "quotient_of \<bar>x\<bar>")
  have b: "0 < b" using q by (rule quotient_of_denom_pos)
  have x: "\<bar>x\<bar> = of_int a / of_int b" using q by (rule quotient_of_div)
  have "0 < \<bar>x\<bar>" using assms by simp
  then have a: "0 < a" using b by (simp add: x zero_less_divide_iff)
  define d where "d = bitlen a - bitlen b"
  have e: "float_exp x = (if 2 powi d \<le> \<bar>x\<bar> then d else d - 1)"
    by (simp add: float_exp_def q d_def)
  have p2: "(0::rat) < 2 powi n" for n by simp
  have blo: "(of_int b :: rat) < 2 powi (bitlen b)" and bhi: "2 powi (bitlen b - 1) \<le> (of_int b :: rat)"
    using bitlen_powi_bounds[OF b] by simp_all
  have alo: "2 powi (bitlen a - 1) \<le> (of_int a :: rat)" and ahi: "(of_int a :: rat) < 2 powi (bitlen a)"
    using bitlen_powi_bounds[OF a] by simp_all
  have bpos: "(0::rat) < of_int b" using b by simp
  have "2 powi (d - 1) * of_int b \<le> 2 powi (d - 1) * (2 powi (bitlen b) :: rat)"
    using blo by (intro mult_left_mono) simp_all
  also have "\<dots> = 2 powi (bitlen a - 1)"
    by (simp add: d_def flip: power_int_add)
  also have "\<dots> \<le> of_int a" by (rule alo)
  finally have lower: "2 powi (d - 1) \<le> \<bar>x\<bar>"
    using bpos by (simp add: x pos_le_divide_eq)
  have "(of_int a :: rat) < 2 powi (bitlen a)" by (rule ahi)
  also have "\<dots> = 2 powi (d + 1) * 2 powi (bitlen b - 1)"
    by (simp add: d_def flip: power_int_add)
  also have "\<dots> \<le> 2 powi (d + 1) * of_int b"
    using bhi by (intro mult_left_mono) simp_all
  finally have upper: "\<bar>x\<bar> < 2 powi (d + 1)"
    using bpos by (simp add: x pos_divide_less_eq)
  show "2 powi (float_exp x) \<le> \<bar>x\<bar>"
    using lower by (simp add: e)
  show "\<bar>x\<bar> < 2 powi (float_exp x + 1)"
    using upper by (auto simp add: e not_le)
qed

lemma fl_error: "\<bar>fl x - x\<bar> \<le> \<bar>x\<bar> / 2 ^ 53"
proof (cases "x = 0")
  case True
  then show ?thesis by (simp add: fl_def)
next
  case False
  define u :: rat where "u = 2 powi (float_exp x - 52)"
  have u: "0 < u" by (simp add: u_def)
  have "fl x - x = (of_int (rint (x / u)) - x / u) * u"
    using False u by (simp add: fl_def u_def algebra_simps)
  then have "\<bar>fl x - x\<bar> = \<bar>of_int (rint (x / u)) - x / u\<bar> * u"
    using u by (simp add: abs_mult)
  also have "\<dots> \<le> 1 / 2 * u"
    using rint_nearest[of "x / u"] u by (intro mult_right_mono) simp_all
  also have "\<dots> = 2 powi (float_exp x) / 2 ^ 53"
    by (simp add: u_def power_int_diff)
  also have "\<dots> \<le> \<bar>x\<bar> / 2 ^ 53"
    using float_exp_bounds(1)[OF False] by (intro divide_right_mono) simp_all
  finally show ?thesis .
qed


lemma fl_error_bound: "\<bar>x\<bar> \<le> b \<Longrightarrow> \<bar>fl x - x\<bar> \<le> b / 2 ^ 53"
  using fl_error[of x] by (simp add: field_simps)



text \<open>The error of the float percentage \<open>(c / t) * 100\<close>.\<close>

lemma float_ratio_error:
  fixes c t :: nat
  assumes ct: "c \<le> t" and t: "0 < t"
  shows "\<bar>fl (of_nat c) / fl (of_nat t) - of_nat c / of_nat t\<bar> \<le> 3 / 2 ^ 53"
proof -
  define u :: rat where "u = 1 / 2 ^ 53"
  define T :: rat where "T = of_nat t"
  define r :: rat where "r = of_nat c / of_nat t"
  define a where "a = fl (of_nat c) / T"
  define b where "b = fl (of_nat t) / T"
  have T: "0 < T" using t by (simp add: T_def)
  have r0: "0 \<le> r" by (simp add: r_def)
  have r1: "r \<le> 1" using ct t by (simp add: r_def)
  have c: "of_nat c = r * T" using t by (simp add: r_def T_def)
  have "\<bar>fl (of_nat c) - of_nat c\<bar> \<le> \<bar>of_nat c\<bar> / 2 ^ 53" by (rule fl_error)
  then have "\<bar>fl (of_nat c) - r * T\<bar> \<le> r * T * u" using r0 T by (simp add: c u_def abs_mult)
  then have "\<bar>fl (of_nat c) - r * T\<bar> / T \<le> r * T * u / T" by (intro divide_right_mono) (use T in simp_all)
  then have ea: "\<bar>a - r\<bar> \<le> r * u"
    using T by (simp add: a_def abs_if field_simps split: if_splits)
  have "\<bar>fl (of_nat t) - of_nat t\<bar> \<le> \<bar>of_nat t\<bar> / 2 ^ 53" by (rule fl_error)
  then have "\<bar>fl T - T\<bar> \<le> T * u" using T by (simp add: T_def u_def)
  then have "\<bar>fl T - T\<bar> / T \<le> T * u / T" by (intro divide_right_mono) (use T in simp_all)
  then have eb: "\<bar>b - 1\<bar> \<le> u"
    using T by (simp add: b_def T_def abs_if field_simps split: if_splits)
  have uval: "u = 1 / 9007199254740992" by (simp add: u_def)
  have bpos: "0 < b" using eb by (simp add: uval abs_if split: if_splits)
  have ab: "fl (of_nat c) / fl (of_nat t) = a / b"
    using T by (simp add: a_def b_def T_def)
  have up: "a \<le> b * (r + 3 * u)"
  proof -
    have "a \<le> r * (1 + u)" using ea by (simp add: abs_if algebra_simps split: if_splits)
    also have "\<dots> \<le> (1 - u) * (r + 3 * u)"
      using r0 r1 by (simp add: uval algebra_simps)
    also have "\<dots> \<le> b * (r + 3 * u)"
      using eb r0 by (intro mult_right_mono) (simp_all add: uval abs_if split: if_splits)
    finally show ?thesis .
  qed
  have lo: "b * (r - 3 * u) \<le> a"
  proof (cases "0 \<le> r - 3 * u")
    case True
    have "b * (r - 3 * u) \<le> (1 + u) * (r - 3 * u)"
      using eb True by (intro mult_right_mono) (simp_all add: abs_if split: if_splits)
    also have "\<dots> \<le> r * (1 - u)"
      using r0 r1 by (simp add: uval algebra_simps)
    also have "\<dots> \<le> a" using ea by (simp add: abs_if algebra_simps split: if_splits)
    finally show ?thesis .
  next
    case False
    then have "b * (r - 3 * u) \<le> 0" using bpos by (simp add: mult_le_0_iff)
    moreover have "0 \<le> a" using ea r0 by (simp add: uval abs_if algebra_simps split: if_splits)
    ultimately show ?thesis by simp
  qed
  from up bpos have "a / b \<le> r + 3 * u" by (simp add: pos_divide_le_eq mult.commute)
  moreover from lo bpos have "r - 3 * u \<le> a / b" by (simp add: pos_le_divide_eq mult.commute)
  ultimately have "\<bar>a / b - r\<bar> \<le> 3 * u" by (simp add: abs_if)
  then show ?thesis by (simp add: ab r_def u_def)
qed

lemma cell_pct_error:
  fixes c t :: nat
  assumes ct: "c \<le> t" and t: "0 < t"
  shows "\<bar>cell_pct c t - 100 * of_nat c / of_nat t\<bar> \<le> 601 / 2 ^ 53"
proof -
  define r :: rat where "r = of_nat c / of_nat t"
  define d where "d = fl (of_nat c) / fl (of_nat t)"
  define q where "q = fl d"
  have r0: "0 \<le> r" by (simp add: r_def)
  have r1: "r \<le> 1" using ct t by (simp add: r_def)
  have ed: "\<bar>d - r\<bar> \<le> 3 / 2 ^ 53"
    unfolding d_def r_def by (rule float_ratio_error[OF ct t])
  have "\<bar>d\<bar> \<le> 2" using ed r0 r1 by (simp add: abs_if split: if_splits)
  then have "\<bar>q - d\<bar> \<le> 2 / 2 ^ 53" unfolding q_def by (rule fl_error_bound)
  with ed have eq: "\<bar>q - r\<bar> \<le> 5 / 2 ^ 53" by (simp add: abs_if split: if_splits)
  have "\<bar>q * 100\<bar> \<le> 101" using eq r0 r1 by (simp add: abs_if split: if_splits)
  then have "\<bar>fl (q * 100) - q * 100\<bar> \<le> 101 / 2 ^ 53" by (rule fl_error_bound)
  with eq have "\<bar>fl (q * 100) - 100 * r\<bar> \<le> 601 / 2 ^ 53"
    by (simp add: abs_if split: if_splits)
  then show ?thesis by (simp add: cell_pct_def q_def d_def r_def)
qed

text \<open>The error of \<open>round(1)\<close> on a float near a percentage.\<close>

lemma round1_error:
  assumes x: "0 \<le> x" "x \<le> 100" and y: "\<bar>y - x\<bar> \<le> 601 / 2 ^ 53"
  shows "\<bar>round1 y - x\<bar> \<le> 1 / 20 + 802 / 2 ^ 53"
    and "0 \<le> rint (fl (y * 10))" and "rint (fl (y * 10)) \<le> 1000"
proof -
  define z where "z = fl (y * 10)"
  define k where "k = rint z"
  have "\<bar>y * 10\<bar> \<le> 1001" using x y by (simp add: abs_if split: if_splits)
  then have "\<bar>z - y * 10\<bar> \<le> 1001 / 2 ^ 53" unfolding z_def by (rule fl_error_bound)
  with y have ez: "\<bar>z - 10 * x\<bar> \<le> 7011 / 2 ^ 53" by (simp add: abs_if split: if_splits)
  have kz: "\<bar>of_int k - z\<bar> \<le> 1 / 2" unfolding k_def by (rule rint_nearest)
  with ez have ek: "\<bar>of_int k - 10 * x\<bar> \<le> 1 / 2 + 7011 / 2 ^ 53"
    by (simp add: abs_if split: if_splits)
  have "(of_int (-1) :: rat) < of_int k" using ek x by (simp add: abs_if split: if_splits)
  then have "-1 < k" by (simp only: of_int_less_iff)
  then have k0: "0 \<le> k" by simp
  have "(of_int k :: rat) < 1001" using ek x by (simp add: abs_if split: if_splits)
  then have "(of_int k :: rat) < of_int 1001" by simp
  then have "k < 1001" by (simp only: of_int_less_iff)
  then have k1: "k \<le> 1000" by simp
  have "\<bar>(of_int k :: rat) / 10\<bar> \<le> 100" using k0 k1 by simp
  then have "\<bar>fl (of_int k / 10) - of_int k / 10\<bar> \<le> 100 / 2 ^ 53" by (rule fl_error_bound)
  with ek have "\<bar>fl (of_int k / 10) - x\<bar> \<le> 1 / 20 + 802 / 2 ^ 53"
    by (simp add: abs_if split: if_splits)
  then show "\<bar>round1 y - x\<bar> \<le> 1 / 20 + 802 / 2 ^ 53"
    by (simp add: round1_def k_def z_def)
  show "0 \<le> rint (fl (y * 10))" using k0 by (simp add: k_def z_def)
  show "rint (fl (y * 10)) \<le> 1000" using k1 by (simp add: k_def z_def)
qed


text \<open>The float percentage of a cell of the table, against the exact percentage.\<close>

lemma crosstab_pct_error:
  assumes "v \<in> set (index_values c df)"
  shows "\<bar>crosstab_pct c df v oc -
           100 * of_nat (cell_count c df v oc) / of_nat (row_total c df v)\<bar> \<le> 601 / 2 ^ 53"
proof -
  have pos: "0 < row_total c df v" using assms by (simp add: row_total_pos_iff)
  then have "crosstab_pct c df v oc = cell_pct (cell_count c df v oc) (row_total c df v)"
    by (simp add: crosstab_pct_def)
  then show ?thesis
    using cell_pct_error[OF cell_count_le pos, of oc] by simp
qed

lemma exact_pct_range:
  assumes "v \<in> set (index_values c df)"
  shows "(0::rat) \<le> 100 * of_nat (cell_count c df v oc) / of_nat (row_total c df v)"
    and "100 * of_nat (cell_count c df v oc) / of_nat (row_total c df v) \<le> (100::rat)"
proof -
  have pos: "0 < row_total c df v" using assms by (simp add: row_total_pos_iff)
  show "(0::rat) \<le> 100 * of_nat (cell_count c df v oc) / of_nat (row_total c df v)"
    by simp
  have "(of_nat (cell_count c df v oc) :: rat) \<le> of_nat (row_total c df v)"
    using cell_count_le[of c df v oc] by (simp only: of_nat_le_iff)
  then show "100 * of_nat (cell_count c df v oc) / of_nat (row_total c df v) \<le> (100::rat)"
    using pos by (simp add: pos_divide_le_eq)
qed

text \<open>A rate of the table is within 0.05, and a float error, of the exact percentage.\<close>

lemma rate_error:
  assumes "v \<in> set (index_values c df)"
  shows "\<bar>round1 (crosstab_pct c df v oc) -
           100 * of_nat (cell_count c df v oc) / of_nat (row_total c df v)\<bar>
         \<le> 1 / 20 + 802 / 2 ^ 53"
  by (rule round1_error(1)[OF exact_pct_range[OF assms] crosstab_pct_error[OF assms]])

section \<open>Floats of the examples\<close>

lemma cell_pct_1_2: "cell_pct 1 2 = 50"
proof -
  have a0: "fl 1 = 1" by code_simp
  have b0: "fl 2 = 2" by code_simp
  have a: "fl (of_nat (1::nat)) = 1" unfolding of_nat_numeral of_nat_0 of_nat_1 by (rule a0)
  have b: "fl (of_nat (2::nat)) = 2" unfolding of_nat_numeral of_nat_0 of_nat_1 by (rule b0)
  have q: "fl (1 / 2) = 1 / 2" by code_simp
  have y: "fl ((1 / 2) * 100) = 50" by code_simp
  show ?thesis unfolding cell_pct_def a b q y by (rule refl)
qed

lemma round1_1_2: "round1 50 = 50"
proof -
  have z: "fl (50 * 10) = 500" by code_simp
  have k: "rint 500 = 500" by code_simp
  have p: "fl (of_int 500 / 10) = 50" by code_simp
  show ?thesis unfolding round1_def z k p by (rule refl)
qed

lemma label_1_2: "str_float1 50 = ''50.0''"
  by code_simp

lemma cell_pct_0_1: "cell_pct 0 1 = 0"
proof -
  have a0: "fl 0 = 0" by code_simp
  have b0: "fl 1 = 1" by code_simp
  have a: "fl (of_nat (0::nat)) = 0" unfolding of_nat_numeral of_nat_0 of_nat_1 by (rule a0)
  have b: "fl (of_nat (1::nat)) = 1" unfolding of_nat_numeral of_nat_0 of_nat_1 by (rule b0)
  have q: "fl (0 / 1) = 0" by code_simp
  have y: "fl (0 * 100) = 0" by code_simp
  show ?thesis unfolding cell_pct_def a b q y by (rule refl)
qed

lemma round1_0_1: "round1 0 = 0"
proof -
  have z: "fl (0 * 10) = 0" by code_simp
  have k: "rint 0 = 0" by code_simp
  have p: "fl (of_int 0 / 10) = 0" by code_simp
  show ?thesis unfolding round1_def z k p by (rule refl)
qed

lemma label_0_1: "str_float1 0 = ''0.0''"
  by code_simp

lemma cell_pct_1_1: "cell_pct 1 1 = 100"
proof -
  have a0: "fl 1 = 1" by code_simp
  have b0: "fl 1 = 1" by code_simp
  have a: "fl (of_nat (1::nat)) = 1" unfolding of_nat_numeral of_nat_0 of_nat_1 by (rule a0)
  have b: "fl (of_nat (1::nat)) = 1" unfolding of_nat_numeral of_nat_0 of_nat_1 by (rule b0)
  have q: "fl (1 / 1) = 1" by code_simp
  have y: "fl (1 * 100) = 100" by code_simp
  show ?thesis unfolding cell_pct_def a b q y by (rule refl)
qed

lemma round1_1_1: "round1 100 = 100"
proof -
  have z: "fl (100 * 10) = 1000" by code_simp
  have k: "rint 1000 = 1000" by code_simp
  have p: "fl (of_int 1000 / 10) = 100" by code_simp
  show ?thesis unfolding round1_def z k p by (rule refl)
qed

lemma label_1_1: "str_float1 100 = ''100.0''"
  by code_simp







lemma cell_pct_3_2000: "cell_pct 3 2000 = 5404319552844595 / 36028797018963968"
proof -
  have a0: "fl 3 = 3" by code_simp
  have b0: "fl 2000 = 2000" by code_simp
  have a: "fl (of_nat (3::nat)) = 3" unfolding of_nat_numeral of_nat_0 of_nat_1 by (rule a0)
  have b: "fl (of_nat (2000::nat)) = 2000" unfolding of_nat_numeral of_nat_0 of_nat_1 by (rule b0)
  have q: "fl (3 / 2000) = 3458764513820541 / 2305843009213693952" by code_simp
  have y: "fl ((3458764513820541 / 2305843009213693952) * 100) = 5404319552844595 / 36028797018963968" by code_simp
  show ?thesis unfolding cell_pct_def a b q y by (rule refl)
qed

lemma round1_3_2000: "round1 (5404319552844595 / 36028797018963968) = 3602879701896397 / 18014398509481984"
proof -
  have z: "fl ((5404319552844595 / 36028797018963968) * 10) = 3 / 2" by code_simp
  have k: "rint (3 / 2) = 2" by code_simp
  have p: "fl (of_int 2 / 10) = 3602879701896397 / 18014398509481984" by code_simp
  show ?thesis unfolding round1_def z k p by (rule refl)
qed

lemma label_3_2000: "str_float1 (3602879701896397 / 18014398509481984) = ''0.2''"
  by code_simp

lemma cell_pct_1997_2000: "cell_pct 1997 2000 = 7026319106139751 / 70368744177664"
proof -
  have a0: "fl 1997 = 1997" by code_simp
  have b0: "fl 2000 = 2000" by code_simp
  have a: "fl (of_nat (1997::nat)) = 1997" unfolding of_nat_numeral of_nat_0 of_nat_1 by (rule a0)
  have b: "fl (of_nat (2000::nat)) = 2000" unfolding of_nat_numeral of_nat_0 of_nat_1 by (rule b0)
  have q: "fl (1997 / 2000) = 8993688455858881 / 9007199254740992" by code_simp
  have y: "fl ((8993688455858881 / 9007199254740992) * 100) = 7026319106139751 / 70368744177664" by code_simp
  show ?thesis unfolding cell_pct_def a b q y by (rule refl)
qed

lemma round1_1997_2000: "round1 (7026319106139751 / 70368744177664) = 3514918771674317 / 35184372088832"
proof -
  have z: "fl ((7026319106139751 / 70368744177664) * 10) = 8782898882674689 / 8796093022208" by code_simp
  have k: "rint (8782898882674689 / 8796093022208) = 999" by code_simp
  have p: "fl (of_int 999 / 10) = 3514918771674317 / 35184372088832" by code_simp
  show ?thesis unfolding round1_def z k p by (rule refl)
qed

lemma label_1997_2000: "str_float1 (3514918771674317 / 35184372088832) = ''99.9''"
  by code_simp

section \<open>The sum of the rates of a category value\<close>

lemma sum_rates_short:
  assumes v: "v \<in> set (index_values c df)" and len: "length (column_values c df) \<le> 2"
  shows "\<bar>sum_list (map (\<lambda>oc. round1 (crosstab_pct c df v oc)) (column_values c df)) - 100\<bar>
         \<le> 1 / 10 + 1604 / 2 ^ 53"
proof -
  define x :: "string \<Rightarrow> rat"
    where "x oc = 100 * of_nat (cell_count c df v oc) / of_nat (row_total c df v)" for oc
  have pos: "0 < row_total c df v" using v by (simp add: row_total_pos_iff)
  have tot: "sum_list (map (cell_count c df v) (column_values c df)) = row_total c df v"
    by (simp add: row_total_def)
  have err: "\<bar>round1 (crosstab_pct c df v oc) - x oc\<bar> \<le> 1 / 20 + 802 / 2 ^ 53" for oc
    unfolding x_def by (rule rate_error[OF v])
  show ?thesis
  proof (cases "column_values c df")
    case Nil
    with tot pos show ?thesis by simp
  next
    case outer: (Cons a as)
    show ?thesis
    proof (cases as)
      case Nil
      with tot outer have "cell_count c df v a = row_total c df v" by simp
      then have "x a = 100" using pos by (simp add: x_def)
      with err[of a] show ?thesis by (simp add: outer Nil abs_if split: if_splits)
    next
      case (Cons b bs)
      with len outer have bs: "bs = []" by simp
      with tot outer Cons have "cell_count c df v a + cell_count c df v b = row_total c df v"
        by simp
      then have "x a + x b = 100"
        using pos by (simp add: x_def field_simps flip: of_nat_add)
      with err[of a] err[of b] show ?thesis
        by (simp add: outer Cons bs abs_if split: if_splits)
    qed
  qed
qed

lemma binary_columns:
  assumes "set (map attrition_flag df) \<subseteq> {a, b}"
  shows "length (column_values c df) \<le> 2"
proof -
  have "set (column_values c df) \<subseteq> {a, b}"
    using assms by (auto simp add: set_column_values)
  then have "card (set (column_values c df)) \<le> card {a, b}"
    by (intro card_mono) simp_all
  also have "\<dots> \<le> 2" by (simp add: card_insert_if)
  finally show ?thesis by (simp add: distinct_card[OF distinct_column_values])
qed

text \<open>
  C6, as the code has it. With the two outcome labels of the data set, the rounded
  percentages of every category value in a rate table sum to a value in
  [99.9, 100.1] up to the representation error of the floats, which is less than
  \<open>10\<^sup>-\<^sup>1\<^sup>2\<close>.
\<close>

theorem rates_sum_near_100:
  assumes "set (map attrition_flag df) \<subseteq> {''Existing Customer'', ''Attrited Customer''}"
    and "q \<in> set (churn_rate_df df c)"
  shows "999 / 10 - 1 / 10 ^ 12 \<le> sum_list (map percentage
            (filter (\<lambda>p. category_value p = category_value q) (churn_rate_df df c)))
       \<and> sum_list (map percentage
            (filter (\<lambda>p. category_value p = category_value q) (churn_rate_df df c)))
          \<le> 1001 / 10 + 1 / 10 ^ 12"
proof -
  have v: "category_value q \<in> set (index_values c df)"
    using assms(2) by (auto simp add: set_churn_rate_df)
  have "\<bar>sum_list (map percentage
            (filter (\<lambda>p. category_value p = category_value q) (churn_rate_df df c))) - 100\<bar>
        \<le> 1 / 10 + 1604 / 2 ^ 53"
    unfolding rates_of_value[OF v]
    by (rule sum_rates_short[OF v binary_columns[OF assms(1)]])
  then show ?thesis by (simp add: abs_if split: if_splits)
qed


section \<open>Which rows the tables have\<close>

text \<open>
  C3. A category value without a row in the filtered table has no entry in the count
  table and no row in the rate table of any dimension; so has an age group that is
  not selected; and no entry of a count table has the count zero.
\<close>

theorem absent_values_have_no_rows:
  "((\<forall>r\<in>set (filtered_df F df). column c r \<noteq> Some v) \<longrightarrow>
      v \<notin> (fst \<circ> fst) ` set (count_by c (filtered_df F df)) \<and>
      v \<notin> category_value ` set (churn_rate_df (filtered_df F df) c)) \<and>
   (v \<notin> set (selected_age F) \<longrightarrow>
      v \<notin> (fst \<circ> fst) ` set (count_by Age_group (filtered_df F df)) \<and>
      v \<notin> category_value ` set (churn_rate_df (filtered_df F df) Age_group)) \<and>
   (\<forall>e\<in>set (count_by c (filtered_df F df)). 0 < snd e)"
proof (intro conjI impI ballI)
  assume none: "\<forall>r\<in>set (filtered_df F df). column c r \<noteq> Some v"
  show "v \<notin> (fst \<circ> fst) ` set (count_by c (filtered_df F df))"
    using none by (auto dest!: count_by_entry)
  show "v \<notin> category_value ` set (churn_rate_df (filtered_df F df) c)"
    using none by (auto dest!: rate_value)
next
  assume off: "v \<notin> set (selected_age F)"
  have none: "\<forall>r\<in>set (filtered_df F df). column Age_group r \<noteq> Some v"
    using off by (auto dest!: filtered_age)
  show "v \<notin> (fst \<circ> fst) ` set (count_by Age_group (filtered_df F df))"
    using none by (auto dest!: count_by_entry)
  show "v \<notin> category_value ` set (churn_rate_df (filtered_df F df) Age_group)"
    using none by (auto dest!: rate_value)
next
  fix e assume "e \<in> set (count_by c (filtered_df F df))"
  then show "0 < snd e" by (simp add: count_by_entry)
qed

text \<open>
  C4. On any table, filtered by the script or not, a category value whose total is zero
  has no row in the rate table, its cell of the normalised cross table is 0 and not an
  error, and every row of the rate table was divided by a positive total.
\<close>

theorem zero_total_row_omitted:
  "(row_total c df v = 0 \<longrightarrow>
      v \<notin> category_value ` set (churn_rate_df df c) \<and> crosstab_pct c df v oc = 0) \<and>
   (\<forall>q\<in>set (churn_rate_df df c). 0 < row_total c df (category_value q))"
proof (intro conjI impI ballI)
  assume zero: "row_total c df v = 0"
  then have "v \<notin> set (index_values c df)"
    using row_total_pos_iff[of c df v] by simp
  then show "v \<notin> category_value ` set (churn_rate_df df c)"
    by (auto simp add: set_churn_rate_df)
  show "crosstab_pct c df v oc = 0"
    by (simp add: crosstab_pct_def zero)
next
  fix q assume "q \<in> set (churn_rate_df df c)"
  then have "category_value q \<in> set (index_values c df)"
    by (auto simp add: set_churn_rate_df)
  then show "0 < row_total c df (category_value q)"
    by (simp add: row_total_pos_iff)
qed

text \<open>
  C5, as the code has it. The rate table has exactly one row per pair of a category
  value that occurs in the table and an outcome that occurs in the table (with any
  category value). The percentage of a row is the float \<open>(count / total) * 100\<close> of its
  category value under \<open>round(1)\<close>; it lies within 0.05, and a float error below
  \<open>10\<^sup>-\<^sup>1\<^sup>2\<close>, of the exact percentage. A category value with one observed outcome
  therefore has a row of 0.0 for every other outcome of the table.
\<close>

theorem churn_rate_df_rows_dense:
  "distinct (map (\<lambda>q. (category_value q, outcome q)) (churn_rate_df df c)) \<and>
   set (map (\<lambda>q. (category_value q, outcome q)) (churn_rate_df df c)) =
     {v. \<exists>r\<in>set df. column c r = Some v} \<times>
     {oc. \<exists>r\<in>set df. column c r \<noteq> None \<and> attrition_flag r = oc} \<and>
   (\<forall>q\<in>set (churn_rate_df df c).
      percentage q =
        round1 (cell_pct (length (filter (\<lambda>r. column c r = Some (category_value q) \<and>
                                               attrition_flag r = outcome q) df))
                         (length (filter (\<lambda>r. column c r = Some (category_value q)) df))) \<and>
      \<bar>percentage q -
         100 * of_nat (length (filter (\<lambda>r. column c r = Some (category_value q) \<and>
                                           attrition_flag r = outcome q) df))
           / of_nat (length (filter (\<lambda>r. column c r = Some (category_value q)) df))\<bar>
        \<le> 1 / 20 + 1 / 10 ^ 12)"
proof (intro conjI ballI)
  have "map (\<lambda>q. (category_value q, outcome q)) (churn_rate_df df c) =
        map (\<lambda>(oc, v). (v, oc)) (map (\<lambda>q. (outcome q, category_value q)) (churn_rate_df df c))"
    by simp
  also have "\<dots> = map (\<lambda>(oc, v). (v, oc)) (List.product (column_values c df) (index_values c df))"
    by (simp only: churn_rate_df_keys)
  finally have keys: "map (\<lambda>q. (category_value q, outcome q)) (churn_rate_df df c) =
        map (\<lambda>(oc, v). (v, oc)) (List.product (column_values c df) (index_values c df))" .
  show "distinct (map (\<lambda>q. (category_value q, outcome q)) (churn_rate_df df c))"
    unfolding keys
    by (auto simp add: distinct_map distinct_product distinct_column_values distinct_index_values
        inj_on_def)
  show "set (map (\<lambda>q. (category_value q, outcome q)) (churn_rate_df df c)) =
     {v. \<exists>r\<in>set df. column c r = Some v} \<times>
     {oc. \<exists>r\<in>set df. column c r \<noteq> None \<and> attrition_flag r = oc}"
    unfolding keys by (force simp add: set_index_values set_column_values)
next
  fix q assume q: "q \<in> set (churn_rate_df df c)"
  then have v: "category_value q \<in> set (index_values c df)"
    by (auto simp add: set_churn_rate_df)
  then have pos: "0 < row_total c df (category_value q)"
    by (simp add: row_total_pos_iff)
  have pq: "percentage q = round1 (crosstab_pct c df (category_value q) (outcome q))"
    using q by (auto simp add: set_churn_rate_df)
  show "percentage q =
        round1 (cell_pct (length (filter (\<lambda>r. column c r = Some (category_value q) \<and>
                                               attrition_flag r = outcome q) df))
                         (length (filter (\<lambda>r. column c r = Some (category_value q)) df)))"
    using pos by (simp add: pq crosstab_pct_eq row_total_eq)
  have "\<bar>percentage q - 100 * of_nat (cell_count c df (category_value q) (outcome q))
           / of_nat (row_total c df (category_value q))\<bar> \<le> 1 / 20 + 802 / 2 ^ 53"
    unfolding pq by (rule rate_error[OF v])
  then show "\<bar>percentage q -
         100 * of_nat (length (filter (\<lambda>r. column c r = Some (category_value q) \<and>
                                           attrition_flag r = outcome q) df))
           / of_nat (length (filter (\<lambda>r. column c r = Some (category_value q)) df))\<bar>
        \<le> 1 / 20 + 1 / 10 ^ 12"
    by (simp add: row_total_eq cell_count_def)
qed

text \<open>
  C2, as the code has it. A customer whose age has no age group passes no filter
  (no row of a filtered table lacks its age group), so the filtered table, and with it
  the rate table of every dimension, the age group and all others, is the one of the
  data set without these customers.
\<close>

theorem undefined_age_excluded_everywhere:
  "None \<notin> age_group ` set (filtered_df F df) \<and>
   filtered_df F (add_age_group cs) =
     filtered_df F (add_age_group
        (filter (\<lambda>c. assign_age_group (customer_age c) \<noteq> None) cs)) \<and>
   churn_rate_df (filtered_df F (add_age_group cs)) d =
     churn_rate_df (filtered_df F (add_age_group
        (filter (\<lambda>c. assign_age_group (customer_age c) \<noteq> None) cs))) d"
proof (intro conjI)
  show "None \<notin> age_group ` set (filtered_df F df)"
    by (auto dest!: filtered_age)
  show "filtered_df F (add_age_group cs) =
     filtered_df F (add_age_group
        (filter (\<lambda>c. assign_age_group (customer_age c) \<noteq> None) cs))"
    by (rule filtered_df_defined_ages)
  then show "churn_rate_df (filtered_df F (add_age_group cs)) d =
     churn_rate_df (filtered_df F (add_age_group
        (filter (\<lambda>c. assign_age_group (customer_age c) \<noteq> None) cs))) d"
    by simp
qed

text \<open>
  C9. Filtering, counting and the rates are functions of the table and the selections
  alone. Applying the same selections to the filtered table again changes neither the
  filtered table nor its count and rate tables.
\<close>

theorem filtering_idempotent:
  "filtered_df F (filtered_df F df) = filtered_df F df \<and>
   count_by c (filtered_df F (filtered_df F df)) = count_by c (filtered_df F df) \<and>
   churn_rate_df (filtered_df F (filtered_df F df)) c = churn_rate_df (filtered_df F df) c"
  by (simp add: filtered_df_idem)

section \<open>The tables of the examples\<close>

lemma scenario_rows:
  "scenario =
     [\<lparr>customer_age = 25, attrition_flag = ''Existing Customer'', gender = ''M'',
       education_level = ''Graduate'', income_category = ''Unknown'', age_group = Some ''20-39''\<rparr>,
      \<lparr>customer_age = 25, attrition_flag = ''Attrited Customer'', gender = ''F'',
       education_level = ''Graduate'', income_category = ''Unknown'', age_group = Some ''20-39''\<rparr>,
      \<lparr>customer_age = 45, attrition_flag = ''Existing Customer'', gender = ''M'',
       education_level = ''Graduate'', income_category = ''Unknown'', age_group = Some ''40-49''\<rparr>]"
  by (simp add: scenario_def scenario_customers_def add_age_group_def assign_age_group_cases)

lemma scenario_defaults_keep_all:
  "filtered_df (default_filters scenario) scenario = scenario"
  by (simp add: filtered_df_filter default_filters_def set_unique set_dropna)
     (simp add: scenario_rows)

lemma scenario_index: "index_values Age_group scenario = [''20-39'', ''40-49'']"
  by (simp add: scenario_rows index_values_def dropna_def List.map_filter_def)

lemma scenario_columns:
  "column_values Age_group scenario = [''Attrited Customer'', ''Existing Customer'']"
  by (simp add: scenario_rows column_values_def)

lemma scenario_pct:
  "crosstab_pct Age_group scenario ''20-39'' ''Attrited Customer'' = 50"
  "crosstab_pct Age_group scenario ''40-49'' ''Attrited Customer'' = 0"
  "crosstab_pct Age_group scenario ''20-39'' ''Existing Customer'' = 50"
  "crosstab_pct Age_group scenario ''40-49'' ''Existing Customer'' = 100"
proof -
  have t2: "row_total Age_group scenario ''20-39'' = 2"
    and t1: "row_total Age_group scenario ''40-49'' = 1"
    unfolding row_total_eq by (simp_all add: scenario_rows)
  have n1: "cell_count Age_group scenario ''20-39'' ''Attrited Customer'' = 1"
    and n2: "cell_count Age_group scenario ''40-49'' ''Attrited Customer'' = 0"
    and n3: "cell_count Age_group scenario ''20-39'' ''Existing Customer'' = 1"
    and n4: "cell_count Age_group scenario ''40-49'' ''Existing Customer'' = 1"
    unfolding cell_count_def by (simp_all add: scenario_rows)
  have "crosstab_pct Age_group scenario ''20-39'' ''Attrited Customer'' = cell_pct 1 2"
    by (rule crosstab_pct_cell[OF t2 n1]) simp
  then show "crosstab_pct Age_group scenario ''20-39'' ''Attrited Customer'' = 50"
    by (simp only: cell_pct_1_2)
  have "crosstab_pct Age_group scenario ''40-49'' ''Attrited Customer'' = cell_pct 0 1"
    by (rule crosstab_pct_cell[OF t1 n2]) simp
  then show "crosstab_pct Age_group scenario ''40-49'' ''Attrited Customer'' = 0"
    by (simp only: cell_pct_0_1)
  have "crosstab_pct Age_group scenario ''20-39'' ''Existing Customer'' = cell_pct 1 2"
    by (rule crosstab_pct_cell[OF t2 n3]) simp
  then show "crosstab_pct Age_group scenario ''20-39'' ''Existing Customer'' = 50"
    by (simp only: cell_pct_1_2)
  have "crosstab_pct Age_group scenario ''40-49'' ''Existing Customer'' = cell_pct 1 1"
    by (rule crosstab_pct_cell[OF t1 n4]) simp
  then show "crosstab_pct Age_group scenario ''40-49'' ''Existing Customer'' = 100"
    by (simp only: cell_pct_1_1)
qed

lemma scenario_rates:
  "churn_rate_df scenario Age_group =
     [\<lparr>category_value = ''20-39'', outcome = ''Attrited Customer'', percentage = 50,
       percentage_label = ''50.0%''\<rparr>,
      \<lparr>category_value = ''40-49'', outcome = ''Attrited Customer'', percentage = 0,
       percentage_label = ''0.0%''\<rparr>,
      \<lparr>category_value = ''20-39'', outcome = ''Existing Customer'', percentage = 50,
       percentage_label = ''50.0%''\<rparr>,
      \<lparr>category_value = ''40-49'', outcome = ''Existing Customer'', percentage = 100,
       percentage_label = ''100.0%''\<rparr>]"
  unfolding churn_rate_df_def scenario_index scenario_columns
  by (simp add: scenario_pct round1_1_2 round1_0_1 round1_1_1 label_1_2 label_0_1 label_1_1)

lemma scenario_counts:
  "count_by Age_group scenario =
     [((''20-39'', ''Existing Customer''), 1), ((''20-39'', ''Attrited Customer''), 1),
      ((''40-49'', ''Existing Customer''), 1)]"
  unfolding count_by_def scenario_rows
  by (simp add: group_key_def unique_def dropna_def List.map_filter_def)

lemma only_40_49_filtered:
  "filtered_df only_40_49 scenario =
     [\<lparr>customer_age = 45, attrition_flag = ''Existing Customer'', gender = ''M'',
       education_level = ''Graduate'', income_category = ''Unknown'', age_group = Some ''40-49''\<rparr>]"
  by (simp add: filtered_df_filter scenario_rows only_40_49_def)

lemma only_40_49_counts:
  "count_by Age_group (filtered_df only_40_49 scenario) = [((''40-49'', ''Existing Customer''), 1)]"
  unfolding only_40_49_filtered count_by_def
  by (simp add: group_key_def unique_def dropna_def List.map_filter_def)

lemma young_rows:
  "young_table =
     [\<lparr>customer_age = 15, attrition_flag = ''Attrited Customer'', gender = ''F'',
       education_level = ''Graduate'', income_category = ''Unknown'', age_group = None\<rparr>,
      \<lparr>customer_age = 30, attrition_flag = ''Existing Customer'', gender = ''M'',
       education_level = ''Graduate'', income_category = ''Unknown'', age_group = Some ''20-39''\<rparr>]"
  by (simp add: young_table_def young_customers_def add_age_group_def assign_age_group_cases)

lemma young_defaults:
  "default_filters young_table =
     \<lparr>selected_age = [''20-39''], selected_edu = [''Graduate''],
      selected_gender = [''F'', ''M''], selected_income = [''Unknown'']\<rparr>"
  by (simp add: young_rows default_filters_def unique_def dropna_def List.map_filter_def)

lemma young_filtered:
  "filtered_df (default_filters young_table) young_table =
     [\<lparr>customer_age = 30, attrition_flag = ''Existing Customer'', gender = ''M'',
       education_level = ''Graduate'', income_category = ''Unknown'', age_group = Some ''20-39''\<rparr>]"
  unfolding young_defaults by (simp add: filtered_df_filter young_rows)

lemma young_gender_rates:
  "churn_rate_df (filtered_df (default_filters young_table) young_table) Gender =
     [\<lparr>category_value = ''M'', outcome = ''Existing Customer'', percentage = 100,
       percentage_label = ''100.0%''\<rparr>]"
  unfolding young_filtered churn_rate_df_def crosstab_pct_def row_total_eq cell_count_def
  by (simp add: index_values_def column_values_def dropna_def List.map_filter_def
      cell_pct_1_1[unfolded One_nat_def] round1_1_1 label_1_1)








lemma two_thousand_rows:
  "two_thousand_table =
     replicate 1997 \<lparr>customer_age = 45, attrition_flag = ''Existing Customer'', gender = ''M'',
       education_level = ''Graduate'', income_category = ''Unknown'', age_group = Some ''40-49''\<rparr> @
     replicate 3 \<lparr>customer_age = 45, attrition_flag = ''Attrited Customer'', gender = ''M'',
       education_level = ''Graduate'', income_category = ''Unknown'', age_group = Some ''40-49''\<rparr>"
  by (simp add: two_thousand_table_def two_thousand_customers_def add_age_group_def
      assign_age_group_cases)

lemma two_thousand_columns:
  "column_values Gender two_thousand_table = [''Attrited Customer'', ''Existing Customer'']"
proof -
  have "set (map attrition_flag (filter (\<lambda>r. column Gender r \<noteq> None) two_thousand_table)) =
        set [''Attrited Customer'', ''Existing Customer'']"
    unfolding two_thousand_rows by auto
  then have "sorted_list_of_set
        (set (map attrition_flag (filter (\<lambda>r. column Gender r \<noteq> None) two_thousand_table))) =
      sorted_list_of_set (set [''Attrited Customer'', ''Existing Customer''])"
    by (rule arg_cong)
  then have "column_values Gender two_thousand_table =
      sort (remdups [''Attrited Customer'', ''Existing Customer''])"
    unfolding column_values_def sorted_list_of_set_sort_remdups .
  then show ?thesis by simp
qed

lemma two_thousand_pct:
  "crosstab_pct Gender two_thousand_table ''M'' ''Attrited Customer'' =
     5404319552844595 / 36028797018963968"
  "crosstab_pct Gender two_thousand_table ''M'' ''Existing Customer'' =
     7026319106139751 / 70368744177664"
proof -
  have t: "row_total Gender two_thousand_table ''M'' = 2000"
    unfolding row_total_eq two_thousand_rows by simp
  have n1: "cell_count Gender two_thousand_table ''M'' ''Attrited Customer'' = 3"
    and n2: "cell_count Gender two_thousand_table ''M'' ''Existing Customer'' = 1997"
    unfolding cell_count_def two_thousand_rows by simp_all
  have "crosstab_pct Gender two_thousand_table ''M'' ''Attrited Customer'' = cell_pct 3 2000"
    by (rule crosstab_pct_cell[OF t n1]) simp
  then show "crosstab_pct Gender two_thousand_table ''M'' ''Attrited Customer'' =
     5404319552844595 / 36028797018963968"
    by (simp only: cell_pct_3_2000)
  have "crosstab_pct Gender two_thousand_table ''M'' ''Existing Customer'' = cell_pct 1997 2000"
    by (rule crosstab_pct_cell[OF t n2]) simp
  then show "crosstab_pct Gender two_thousand_table ''M'' ''Existing Customer'' =
     7026319106139751 / 70368744177664"
    by (simp only: cell_pct_1997_2000)
qed

lemma two_thousand_rates:
  "map percentage (filter (\<lambda>p. category_value p = ''M'')
       (churn_rate_df two_thousand_table Gender)) =
     [3602879701896397 / 18014398509481984, 3514918771674317 / 35184372088832]"
proof -
  have v: "''M'' \<in> set (index_values Gender two_thousand_table)"
    unfolding set_index_values two_thousand_rows by simp
  show ?thesis
    unfolding rates_of_value[OF v] two_thousand_columns
    by (simp add: two_thousand_pct round1_3_2000 round1_1997_2000)
qed

section \<open>The claims on the examples\<close>

text \<open>
  C2, as the spec states it, fails. Under the default selections (every value of every
  column) the customer of age 15 is not in the filtered table, and the gender rate
  table has no row for her gender \<open>F\<close>, although \<open>F\<close> is selected: she is counted in
  no aggregation.
\<close>

theorem undefined_age_dropped_from_gender_rates:
  "map age_group young_table = [None, Some ''20-39''] \<and>
   map gender young_table = [''F'', ''M''] \<and>
   selected_gender (default_filters young_table) = [''F'', ''M''] \<and>
   map gender (filtered_df (default_filters young_table) young_table) = [''M''] \<and>
   churn_rate_df (filtered_df (default_filters young_table) young_table) Gender =
     [\<lparr>category_value = ''M'', outcome = ''Existing Customer'', percentage = 100,
       percentage_label = ''100.0%''\<rparr>]"
proof (intro conjI)
  show "map age_group young_table = [None, Some ''20-39'']" by (simp add: young_rows)
  show "map gender young_table = [''F'', ''M'']" by (simp add: young_rows)
  show "selected_gender (default_filters young_table) = [''F'', ''M'']"
    by (simp add: young_defaults)
  show "map gender (filtered_df (default_filters young_table) young_table) = [''M'']"
    by (simp add: young_filtered)
  show "churn_rate_df (filtered_df (default_filters young_table) young_table) Gender =
     [\<lparr>category_value = ''M'', outcome = ''Existing Customer'', percentage = 100,
       percentage_label = ''100.0%''\<rparr>]" by (rule young_gender_rates)
qed

text \<open>
  C3 on the scenario with only the age group \<open>40-49\<close> selected: the count table is the
  spec's, and \<open>20-39\<close> has no entry and no row.
\<close>

theorem absent_values_have_no_rows_witness:
  "''20-39'' \<notin> set (selected_age only_40_49) \<and>
   count_by Age_group (filtered_df only_40_49 scenario) = [((''40-49'', ''Existing Customer''), 1)] \<and>
   ''20-39'' \<notin> (fst \<circ> fst) ` set (count_by Age_group (filtered_df only_40_49 scenario)) \<and>
   ''20-39'' \<notin> category_value ` set (churn_rate_df (filtered_df only_40_49 scenario) Age_group)"
proof -
  have off: "''20-39'' \<notin> set (selected_age only_40_49)" by (simp add: only_40_49_def)
  from absent_values_have_no_rows[of only_40_49 scenario Age_group "''20-39''"] off
    only_40_49_counts
  show ?thesis by blast
qed

text \<open>C4 on the scenario: the age group \<open>50-59\<close> has total zero and no row.\<close>

theorem zero_total_row_omitted_witness:
  "row_total Age_group scenario ''50-59'' = 0 \<and>
   ''50-59'' \<notin> category_value ` set (churn_rate_df scenario Age_group) \<and>
   crosstab_pct Age_group scenario ''50-59'' ''Existing Customer'' = 0 \<and>
   zero_row \<in> set (churn_rate_df scenario Age_group) \<and>
   0 < row_total Age_group scenario (category_value zero_row)"
proof -
  have zero: "row_total Age_group scenario ''50-59'' = 0"
    unfolding row_total_eq by (simp add: scenario_rows)
  have mem: "zero_row \<in> set (churn_rate_df scenario Age_group)"
    by (simp add: scenario_rates zero_row_def)
  from zero_total_row_omitted[of Age_group scenario "''50-59''" "''Existing Customer''"] zero mem
  show ?thesis by blast
qed

text \<open>
  C5, as the spec states it, fails on the spec's own scenario: the age group \<open>40-49\<close>
  has one observed outcome and two rows in the rate table, one of them at 0.0.
\<close>

theorem single_outcome_value_has_two_rows:
  "map attrition_flag (filter (\<lambda>r. age_group r = Some ''40-49'') scenario) =
     [''Existing Customer''] \<and>
   map (\<lambda>q. (outcome q, percentage q))
       (filter (\<lambda>q. category_value q = ''40-49'') (churn_rate_df scenario Age_group)) =
     [(''Attrited Customer'', 0), (''Existing Customer'', 100)]"
proof (intro conjI)
  show "map attrition_flag (filter (\<lambda>r. age_group r = Some ''40-49'') scenario) =
     [''Existing Customer'']" by (simp add: scenario_rows)
  show "map (\<lambda>q. (outcome q, percentage q))
       (filter (\<lambda>q. category_value q = ''40-49'') (churn_rate_df scenario Age_group)) =
     [(''Attrited Customer'', 0), (''Existing Customer'', 100)]"
    by (simp add: scenario_rates)
qed

theorem churn_rate_df_rows_dense_witness:
  "zero_row \<in> set (churn_rate_df scenario Age_group) \<and>
   percentage zero_row =
     round1 (cell_pct (length (filter (\<lambda>r. column Age_group r = Some (category_value zero_row) \<and>
                                            attrition_flag r = outcome zero_row) scenario))
                      (length (filter (\<lambda>r. column Age_group r = Some (category_value zero_row))
                                      scenario))) \<and>
   \<bar>percentage zero_row -
      100 * of_nat (length (filter (\<lambda>r. column Age_group r = Some (category_value zero_row) \<and>
                                        attrition_flag r = outcome zero_row) scenario))
        / of_nat (length (filter (\<lambda>r. column Age_group r = Some (category_value zero_row))
                                 scenario))\<bar>
     \<le> 1 / 20 + 1 / 10 ^ 12"
proof -
  have mem: "zero_row \<in> set (churn_rate_df scenario Age_group)"
    by (simp add: scenario_rates zero_row_def)
  from churn_rate_df_rows_dense[of scenario Age_group] mem show ?thesis by blast
qed

text \<open>
  C6, as the spec states it, fails. Of two thousand customers three leave: the float
  rates 0.15 and 99.85 are rounded to the floats of 0.2 and 99.9, and their sum, exact
  or rounded to a float, is greater than 100.1 and its float.
\<close>

theorem rates_sum_exceeds_100_1:
  "set (map attrition_flag two_thousand_table) \<subseteq> {''Existing Customer'', ''Attrited Customer''} \<and>
   map percentage (filter (\<lambda>p. category_value p = ''M'')
       (churn_rate_df two_thousand_table Gender)) =
     [3602879701896397 / 18014398509481984, 3514918771674317 / 35184372088832] \<and>
   fl (2 / 10) = 3602879701896397 / 18014398509481984 \<and>
   fl (999 / 10) = 3514918771674317 / 35184372088832 \<and>
   1001 / 10 < sum_list (map percentage (filter (\<lambda>p. category_value p = ''M'')
       (churn_rate_df two_thousand_table Gender))) \<and>
   fl (1001 / 10) < fl (sum_list (map percentage (filter (\<lambda>p. category_value p = ''M'')
       (churn_rate_df two_thousand_table Gender))))"
proof (intro conjI)
  show "set (map attrition_flag two_thousand_table)
          \<subseteq> {''Existing Customer'', ''Attrited Customer''}"
    unfolding two_thousand_rows by auto
  show "map percentage (filter (\<lambda>p. category_value p = ''M'')
       (churn_rate_df two_thousand_table Gender)) =
     [3602879701896397 / 18014398509481984, 3514918771674317 / 35184372088832]"
    by (rule two_thousand_rates)
  show "fl (2 / 10) = 3602879701896397 / 18014398509481984" by code_simp
  show "fl (999 / 10) = 3514918771674317 / 35184372088832" by code_simp
  show "1001 / 10 < sum_list (map percentage (filter (\<lambda>p. category_value p = ''M'')
       (churn_rate_df two_thousand_table Gender)))"
    unfolding two_thousand_rates by simp
  have s: "sum_list [3602879701896397 / 18014398509481984, 3514918771674317 / 35184372088832]
      = (1803241290799146701 / 18014398509481984 :: rat)" by simp
  have a: "fl (1001 / 10) = 3521955646092083 / 35184372088832" by code_simp
  have b: "fl (1803241290799146701 / 18014398509481984) = 7043911292184167 / 70368744177664"
    by code_simp
  show "fl (1001 / 10) < fl (sum_list (map percentage (filter (\<lambda>p. category_value p = ''M'')
       (churn_rate_df two_thousand_table Gender))))"
    unfolding two_thousand_rates s a b by simp
qed

text \<open>C6 on the scenario, at the age group \<open>20-39\<close> with its two rows of 50.0.\<close>

theorem rates_sum_near_100_witness:
  "set (map attrition_flag scenario) \<subseteq> {''Existing Customer'', ''Attrited Customer''} \<and>
   half_row \<in> set (churn_rate_df scenario Age_group) \<and>
   999 / 10 - 1 / 10 ^ 12 \<le> sum_list (map percentage
            (filter (\<lambda>p. category_value p = category_value half_row)
                    (churn_rate_df scenario Age_group))) \<and>
   sum_list (map percentage
            (filter (\<lambda>p. category_value p = category_value half_row)
                    (churn_rate_df scenario Age_group))) \<le> 1001 / 10 + 1 / 10 ^ 12"
proof -
  have bin: "set (map attrition_flag scenario) \<subseteq> {''Existing Customer'', ''Attrited Customer''}"
    by (simp add: scenario_rows)
  have mem: "half_row \<in> set (churn_rate_df scenario Age_group)"
    by (simp add: scenario_rates half_row_def)
  from rates_sum_near_100[OF bin mem] bin mem show ?thesis by blast
qed

text \<open>C8 on the scenario with no gender selected.\<close>

theorem filtered_df_empty_witness:
  "selected_gender no_gender = [] \<and> scenario \<noteq> [] \<and> filtered_df no_gender scenario = []"
proof -
  have e: "selected_gender no_gender = []" by (simp add: no_gender_def)
  have n: "scenario \<noteq> []" by (simp add: scenario_rows)
  from filtered_df_empty[of no_gender scenario] e n show ?thesis by blast
qed



end
